theory Spec2Isabelle
  imports Complex_Main
begin

section \<open>Numeric cells of a data frame\<close>

text \<open>
  The handler in \<^verbatim>\<open>streamlit_app.py\<close> works on the columns that
  \<^verbatim>\<open>pd.read_csv\<close> produces. This section is about the cells of a \<^verbatim>\<open>float64\<close>
  column: a cell is a finite number, an infinity or NaN (an empty CSV cell, or the result
  of \<^verbatim>\<open>0/0\<close>). pandas arithmetic never raises on these values: a division by zero
  yields an infinity or NaN. Integer-typed columns and columns of text come further
  down.

  Finite arithmetic is taken exactly, over the reals. What binary floating point adds is
  not part of this model:
  \<^item> every operation of the code rounds its result to a double. A value that is exactly
    0 here, such as a denominator \<open>P + 0.8 S\<close>, is in general a tiny double other than 0
    there; a quotient such as \<open>(P * A * 0.278) / A\<close> cancels here and need not cancel
    there; a value on a rounding tie can fall to either side;
  \<^item> a result beyond the range of a double becomes an infinity, also the scaling by 100
    inside \<^verbatim>\<open>round\<close>;
  \<^item> an integer cell beyond \<open>2\<^sup>5\<^sup>3\<close> is rounded when it enters float arithmetic;
  \<^item> the sign of zero: a zero is treated as the positive zero.

  Statements that hold in this sense only say so: in exact arithmetic.
\<close>

datatype fnum = Fin real | PInf | NInf | NaN

fun is_neg :: "fnum \<Rightarrow> bool" where
  "is_neg (Fin a) = (a < 0)"
| "is_neg PInf = False"
| "is_neg NInf = True"
| "is_neg NaN = False"

definition signed_inf :: "bool \<Rightarrow> fnum" where
  "signed_inf neg = (if neg then NInf else PInf)"

fun fneg :: "fnum \<Rightarrow> fnum" where
  "fneg (Fin a) = Fin (- a)"
| "fneg PInf = NInf"
| "fneg NInf = PInf"
| "fneg NaN = NaN"

fun fadd :: "fnum \<Rightarrow> fnum \<Rightarrow> fnum" where
  "fadd NaN y = NaN"
| "fadd x NaN = NaN"
| "fadd (Fin a) (Fin b) = Fin (a + b)"
| "fadd (Fin a) y = y"
| "fadd x (Fin b) = x"
| "fadd PInf PInf = PInf"
| "fadd NInf NInf = NInf"
| "fadd PInf NInf = NaN"
| "fadd NInf PInf = NaN"

definition fsub :: "fnum \<Rightarrow> fnum \<Rightarrow> fnum" where
  "fsub x y = fadd x (fneg y)"

fun fmul :: "fnum \<Rightarrow> fnum \<Rightarrow> fnum" where
  "fmul NaN y = NaN"
| "fmul x NaN = NaN"
| "fmul (Fin a) (Fin b) = Fin (a * b)"
| "fmul x y = (if x = Fin 0 \<or> y = Fin 0 then NaN else signed_inf (is_neg x \<noteq> is_neg y))"

fun fdiv :: "fnum \<Rightarrow> fnum \<Rightarrow> fnum" where
  "fdiv NaN y = NaN"
| "fdiv x NaN = NaN"
| "fdiv (Fin a) (Fin b) =
     (if b \<noteq> 0 then Fin (a / b) else if a = 0 then NaN else signed_inf (a < 0))"
| "fdiv (Fin a) y = Fin 0"
| "fdiv x (Fin b) = signed_inf (is_neg x \<noteq> (b < 0))"
| "fdiv x y = NaN"

text \<open>\<^verbatim>\<open>x ** 2\<close>\<close>

fun fpow2 :: "fnum \<Rightarrow> fnum" where
  "fpow2 (Fin a) = Fin (a\<^sup>2)"
| "fpow2 PInf = PInf"
| "fpow2 NInf = PInf"
| "fpow2 NaN = NaN"

text \<open>
  \<^verbatim>\<open>Series.round(2)\<close> is numpy's rounding: the value is scaled by 100, rounded to the
  nearest integer with ties going to the even one, and scaled back.
\<close>

definition rint :: "real \<Rightarrow> real" where
  "rint x =
     (let f = \<lfloor>x\<rfloor>; d = x - of_int f
      in if d < 1 / 2 then of_int f
         else if 1 / 2 < d then of_int (f + 1)
         else if even f then of_int f else of_int (f + 1))"

definition round2 :: "real \<Rightarrow> real" where
  "round2 x = rint (x * 100) / 100"

fun fround2 :: "fnum \<Rightarrow> fnum" where
  "fround2 (Fin a) = Fin (round2 a)"
| "fround2 x = x"

section \<open>Series and data frames\<close>

text \<open>
  A Series is the list of its cells; arithmetic on Series is elementwise, a scalar
  operand is broadcast. A data frame maps a column name to its Series; all columns of
  one frame have the same length.
\<close>

type_synonym series = "fnum list"

type_synonym dataframe = "string \<rightharpoonup> series"

text \<open>
  The \<^verbatim>\<open>except Exception\<close> of the handler catches two kinds of error: the
  \<^verbatim>\<open>KeyError\<close> of a missing column, and the \<^verbatim>\<open>TypeError\<close> of arithmetic on a
  column of text.
\<close>

datatype error = KeyError string | TypeError

definition getitem :: "(string \<rightharpoonup> 'a) \<Rightarrow> string \<Rightarrow> error + 'a" where
  "getitem data k = (case data k of None \<Rightarrow> Inl (KeyError k) | Some col \<Rightarrow> Inr col)"

definition scalar_truediv :: "real \<Rightarrow> series \<Rightarrow> series" where
  "scalar_truediv k s = map (\<lambda>x. fdiv (Fin k) x) s"

definition sub_scalar :: "series \<Rightarrow> real \<Rightarrow> series" where
  "sub_scalar s k = map (\<lambda>x. fsub x (Fin k)) s"

definition scalar_mul :: "real \<Rightarrow> series \<Rightarrow> series" where
  "scalar_mul k s = map (\<lambda>x. fmul (Fin k) x) s"

definition mul_scalar :: "series \<Rightarrow> real \<Rightarrow> series" where
  "mul_scalar s k = map (\<lambda>x. fmul x (Fin k)) s"

definition series_add :: "series \<Rightarrow> series \<Rightarrow> series" where
  "series_add a b = map2 fadd a b"

definition series_sub :: "series \<Rightarrow> series \<Rightarrow> series" where
  "series_sub a b = map2 fsub a b"

definition series_mul :: "series \<Rightarrow> series \<Rightarrow> series" where
  "series_mul a b = map2 fmul a b"

definition series_truediv :: "series \<Rightarrow> series \<Rightarrow> series" where
  "series_truediv a b = map2 fdiv a b"

definition series_pow2 :: "series \<Rightarrow> series" where
  "series_pow2 s = map fpow2 s"

definition series_round2 :: "series \<Rightarrow> series" where
  "series_round2 s = map fround2 s"

section \<open>The calculate handler\<close>

text \<open>
  The result frame has the columns \<^verbatim>\<open>Rainfall (mm)\<close>, \<^verbatim>\<open>Runoff (mm)\<close> and
  \<^verbatim>\<open>Runoff Volume (m3)\<close>.
\<close>

record result =
  Rainfall_mm :: series
  Runoff_mm :: series
  Runoff_Volume_m3 :: series

text \<open>The SCS CN branch: potential retention \<open>S\<close>, depth \<open>Q\<close> and volume.\<close>

definition scs_S :: "series \<Rightarrow> series" where
  "scs_S CN = sub_scalar (scalar_truediv 25400 CN) 254"

definition scs_Q :: "series \<Rightarrow> series \<Rightarrow> series" where
  "scs_Q rainfall S =
     series_truediv (series_pow2 (series_sub rainfall (scalar_mul 0.2 S)))
                    (series_add rainfall (scalar_mul 0.8 S))"

definition scs_volume :: "series \<Rightarrow> series \<Rightarrow> series" where
  "scs_volume Q area = mul_scalar (series_mul Q area) 1000"

text \<open>The Strange branch: volume first, depth derived from it.\<close>

definition strange_volume :: "series \<Rightarrow> series \<Rightarrow> series" where
  "strange_volume rainfall area = mul_scalar (series_mul rainfall area) 0.278"

definition strange_Q :: "series \<Rightarrow> series \<Rightarrow> series" where
  "strange_Q runoff_volume area = series_truediv runoff_volume area"

text \<open>
  The body of the \<^verbatim>\<open>try\<close> block, on a frame whose columns are all \<^verbatim>\<open>float64\<close>.
  The three columns are read first, in this order, for either method; a missing column
  raises \<^verbatim>\<open>KeyError\<close>, which the handler catches and shows as an error message. The
  method is the label of the radio control. The handler on columns of any type is
  \<open>calculate_frame\<close> below; on \<^verbatim>\<open>float64\<close> columns the two agree.
\<close>

definition calculate :: "dataframe \<Rightarrow> string \<Rightarrow> error + result" where
  "calculate data method =
     (case getitem data ''Rainfall (mm)'' of Inl e \<Rightarrow> Inl e | Inr rainfall \<Rightarrow>
     (case getitem data ''Curve Number'' of Inl e \<Rightarrow> Inl e | Inr CN \<Rightarrow>
     (case getitem data ''Area (sq.km)'' of Inl e \<Rightarrow> Inl e | Inr area \<Rightarrow>
        let (Q, runoff_volume) =
              (if method = ''SCS CN Method''
               then let S = scs_S CN;
                        Q = scs_Q rainfall S
                    in (Q, scs_volume Q area)
               else let runoff_volume = strange_volume rainfall area
                    in (strange_Q runoff_volume area, runoff_volume))
        in Inr \<lparr> Rainfall_mm = series_round2 rainfall,
                 Runoff_mm = series_round2 Q,
                 Runoff_Volume_m3 = series_round2 runoff_volume \<rparr>)))"

text \<open>A frame with the three input columns and one row.\<close>

definition one_row :: "fnum \<Rightarrow> fnum \<Rightarrow> fnum \<Rightarrow> dataframe" where
  "one_row p c a =
     [''Rainfall (mm)'' \<mapsto> [p], ''Curve Number'' \<mapsto> [c], ''Area (sq.km)'' \<mapsto> [a]]"

section \<open>Columns as \<^verbatim>\<open>read_csv\<close> types them\<close>

text \<open>
  \<^verbatim>\<open>pd.read_csv\<close> gives each column one type: \<^verbatim>\<open>int64\<close> when every cell is an
  integer, \<^verbatim>\<open>float64\<close> when every cell is a number and one of them has a decimal
  point, an exponent or is empty, and \<^verbatim>\<open>object\<close> (text) when a cell is not a number.
  The type of a cell therefore depends on the other cells of its column. Other column
  types (booleans, integers beyond the \<^verbatim>\<open>int64\<close> range) and a file without any data
  row are left out.
\<close>

datatype column = Float64 series | Int64 "int list" | Object "string list"

type_synonym frame = "string \<rightharpoonup> column"

text \<open>
  An \<^verbatim>\<open>int64\<close> column enters float arithmetic with the values of its cells; arithmetic
  on a column of text raises \<^verbatim>\<open>TypeError\<close>.
\<close>

definition as_float :: "column \<Rightarrow> error + series" where
  "as_float col =
     (case col of
        Float64 s \<Rightarrow> Inr s
      | Int64 ns \<Rightarrow> Inr (map (\<lambda>n. Fin (of_int n)) ns)
      | Object ss \<Rightarrow> Inl TypeError)"

text \<open>A product of two \<^verbatim>\<open>int64\<close> values is an \<^verbatim>\<open>int64\<close>: numpy wraps it around silently.\<close>

definition wrap64 :: "int \<Rightarrow> int" where
  "wrap64 n = (n + 2 ^ 63) mod 2 ^ 64 - 2 ^ 63"

text \<open>
  \<^verbatim>\<open>rainfall * area\<close>. Two \<^verbatim>\<open>int64\<close> columns are multiplied as integers; one
  \<^verbatim>\<open>float64\<close> column makes the product a float product. With a column of text the
  product either raises \<^verbatim>\<open>TypeError\<close> at once or (text times integer) is text again,
  and then the multiplication by \<^verbatim>\<open>0.278\<close> that follows raises it.
\<close>

definition column_mul :: "column \<Rightarrow> column \<Rightarrow> error + series" where
  "column_mul a b =
     (case (a, b) of
        (Int64 xs, Int64 ys) \<Rightarrow> Inr (map2 (\<lambda>x y. Fin (of_int (wrap64 (x * y)))) xs ys)
      | _ \<Rightarrow> (case as_float a of Inl e \<Rightarrow> Inl e | Inr s \<Rightarrow>
             (case as_float b of Inl e \<Rightarrow> Inl e | Inr t \<Rightarrow> Inr (series_mul s t))))"

text \<open>
  The handler on a frame as \<^verbatim>\<open>read_csv\<close> types it. The three columns are read first;
  the SCS CN branch uses all three in float arithmetic, the Strange branch multiplies
  rainfall and area as their types say and never touches the curve numbers.
  \<^verbatim>\<open>rainfall.round(2)\<close> leaves the cells of an \<^verbatim>\<open>int64\<close> column as they are.
\<close>

definition calculate_frame :: "frame \<Rightarrow> string \<Rightarrow> error + result" where
  "calculate_frame data method =
     (case getitem data ''Rainfall (mm)'' of Inl e \<Rightarrow> Inl e | Inr rainfall \<Rightarrow>
     (case getitem data ''Curve Number'' of Inl e \<Rightarrow> Inl e | Inr CN \<Rightarrow>
     (case getitem data ''Area (sq.km)'' of Inl e \<Rightarrow> Inl e | Inr area \<Rightarrow>
        (if method = ''SCS CN Method''
         then (case as_float CN of Inl e \<Rightarrow> Inl e | Inr cn \<Rightarrow>
              (case as_float rainfall of Inl e \<Rightarrow> Inl e | Inr p \<Rightarrow>
              (case as_float area of Inl e \<Rightarrow> Inl e | Inr a \<Rightarrow>
                 let S = scs_S cn;
                     Q = scs_Q p S;
                     runoff_volume = scs_volume Q a
                 in Inr \<lparr> Rainfall_mm = series_round2 p,
                          Runoff_mm = series_round2 Q,
                          Runoff_Volume_m3 = series_round2 runoff_volume \<rparr>)))
         else (case column_mul rainfall area of Inl e \<Rightarrow> Inl e | Inr product \<Rightarrow>
              (case as_float rainfall of Inl e \<Rightarrow> Inl e | Inr p \<Rightarrow>
              (case as_float area of Inl e \<Rightarrow> Inl e | Inr a \<Rightarrow>
                 let runoff_volume = mul_scalar product 0.278;
                     Q = strange_Q runoff_volume a
                 in Inr \<lparr> Rainfall_mm = series_round2 p,
                          Runoff_mm = series_round2 Q,
                          Runoff_Volume_m3 = series_round2 runoff_volume \<rparr>)))))))"

text \<open>A frame whose columns are all \<^verbatim>\<open>float64\<close>.\<close>

definition float_frame :: "dataframe \<Rightarrow> frame" where
  "float_frame data = (\<lambda>k. map_option Float64 (data k))"

text \<open>
  Row \<open>i\<close> of the product \<^verbatim>\<open>rainfall * area\<close> does not wrap around: one of the columns
  is \<^verbatim>\<open>float64\<close>, or the integer product lies in the \<^verbatim>\<open>int64\<close> range.
\<close>

definition fits64 :: "int \<Rightarrow> bool" where
  "fits64 n = (- (2 ^ 63) \<le> n \<and> n < 2 ^ 63)"

fun no_wrap :: "column \<Rightarrow> column \<Rightarrow> nat \<Rightarrow> bool" where
  "no_wrap (Int64 xs) (Int64 ys) i = fits64 (xs ! i * ys ! i)"
| "no_wrap a b i = True"

section \<open>The serialised result\<close>

text \<open>
  Modelled from the spec: the text that \<^verbatim>\<open>result.to_csv(index=False)\<close> writes and
  the reading of that text back into numbers. Both are pandas' own and not part of the
  source; section 6 of the specification fixes the output as delimited text with one
  header row, the columns \<^verbatim>\<open>Rainfall (mm)\<close>, \<^verbatim>\<open>Runoff (mm)\<close> and
  \<^verbatim>\<open>Runoff Volume (m3)\<close> (with the superscript three, two bytes in UTF-8), and
  numeric values with exactly two decimal places. A cell that is not a finite number is
  written as pandas writes it: nothing for NaN, \<^verbatim>\<open>inf\<close> and \<^verbatim>\<open>-inf\<close> for the
  infinities. (pandas itself writes the shortest decimal text of a double, \<^verbatim>\<open>13.8\<close> for
  13.80; the reader below takes either.)
\<close>

definition digit_char :: "nat \<Rightarrow> char" where
  "digit_char d = char_of (48 + d)"

definition is_digit :: "char \<Rightarrow> bool" where
  "is_digit c = (48 \<le> (of_char c :: nat) \<and> (of_char c :: nat) \<le> 57)"

definition digit_val :: "char \<Rightarrow> nat" where
  "digit_val c = of_char c - 48"

fun show_nat :: "nat \<Rightarrow> string" where
  "show_nat n = (if n < 10 then [digit_char n] else show_nat (n div 10) @ [digit_char (n mod 10)])"

definition read_nat :: "string \<Rightarrow> nat" where
  "read_nat s = foldl (\<lambda>a c. 10 * a + digit_val c) 0 s"

declare show_nat.simps [simp del]












section \<open>Rounding\<close>

lemma rint_of_int [simp]: "rint (of_int k) = of_int k"
  by (simp add: rint_def)

lemma rint_lower: "of_int \<lfloor>x\<rfloor> \<le> rint x"
  by (simp add: rint_def Let_def)

lemma rint_upper: "rint x \<le> of_int \<lfloor>x\<rfloor> + 1"
  by (simp add: rint_def Let_def)

lemma rint_mono:
  assumes "x \<le> y"
  shows "rint x \<le> rint y"
proof (cases "\<lfloor>x\<rfloor> = \<lfloor>y\<rfloor>")
  case True
  with assms show ?thesis
    by (auto simp: rint_def Let_def)
next
  case False
  from assms have "\<lfloor>x\<rfloor> \<le> \<lfloor>y\<rfloor>" by (rule floor_mono)
  with False have "\<lfloor>x\<rfloor> + 1 \<le> \<lfloor>y\<rfloor>" by simp
  then have "(of_int \<lfloor>x\<rfloor> :: real) + 1 \<le> of_int \<lfloor>y\<rfloor>"
    by (metis of_int_1 of_int_add of_int_le_iff)
  with rint_upper [of x] rint_lower [of y] show ?thesis by linarith
qed

lemma round2_mono: "x \<le> y \<Longrightarrow> round2 x \<le> round2 y"
  by (simp add: round2_def rint_mono divide_right_mono)

lemma round2_zero [simp]: "round2 0 = 0"
  using rint_of_int [of 0] by (simp add: round2_def)

lemma round2_nonneg: "0 \<le> x \<Longrightarrow> 0 \<le> round2 x"
  using round2_mono [of 0 x] by simp

lemma round2_nonpos: "x \<le> 0 \<Longrightarrow> round2 x \<le> 0"
  using round2_mono [of x 0] by simp

section \<open>The handler, column by column and row by row\<close>

lemmas series_defs = scalar_truediv_def sub_scalar_def scalar_mul_def mul_scalar_def
  series_add_def series_sub_def series_mul_def series_truediv_def series_pow2_def series_round2_def

lemma calculate_scs:
  assumes "data ''Rainfall (mm)'' = Some P" "data ''Curve Number'' = Some C"
    "data ''Area (sq.km)'' = Some A"
  shows "calculate data ''SCS CN Method'' =
    Inr \<lparr> Rainfall_mm = series_round2 P,
           Runoff_mm = series_round2 (scs_Q P (scs_S C)),
           Runoff_Volume_m3 = series_round2 (scs_volume (scs_Q P (scs_S C)) A) \<rparr>"
  using assms by (simp add: calculate_def getitem_def Let_def)

lemma length_scs_Q: "length C = length P \<Longrightarrow> length (scs_Q P (scs_S C)) = length P"
  by (simp add: scs_Q_def scs_S_def series_defs)

lemma length_scs_volume:
  "length C = length P \<Longrightarrow> length A = length P \<Longrightarrow>
   length (scs_volume (scs_Q P (scs_S C)) A) = length P"
  by (simp add: scs_volume_def length_scs_Q mul_scalar_def series_mul_def)

lemma scs_Q_nth:
  assumes "length C = length P" "i < length P"
  shows "scs_Q P (scs_S C) ! i =
    fdiv (fpow2 (fsub (P ! i) (fmul (Fin 0.2) (fsub (fdiv (Fin 25400) (C ! i)) (Fin 254)))))
         (fadd (P ! i) (fmul (Fin 0.8) (fsub (fdiv (Fin 25400) (C ! i)) (Fin 254))))"
  using assms by (simp add: scs_Q_def scs_S_def series_defs)

lemma scs_volume_nth:
  assumes "length C = length P" "length A = length P" "i < length P"
  shows "scs_volume (scs_Q P (scs_S C)) A ! i =
    fmul (fmul (scs_Q P (scs_S C) ! i) (A ! i)) (Fin 1000)"
  using assms by (simp add: scs_volume_def mul_scalar_def series_mul_def length_scs_Q)

lemma series_round2_nth: "i < length s \<Longrightarrow> series_round2 s ! i = fround2 (s ! i)"
  by (simp add: series_round2_def)

lemma scs_Q_finite:
  assumes "length C = length P" "i < length P" "P ! i = Fin p" "C ! i = Fin c" "c \<noteq> 0"
    "p + 0.8 * (25400 / c - 254) \<noteq> 0"
  shows "scs_Q P (scs_S C) ! i =
    Fin ((p - 0.2 * (25400 / c - 254))\<^sup>2 / (p + 0.8 * (25400 / c - 254)))"
  using assms by (simp add: scs_Q_nth fsub_def)

lemma one_row_cols:
  "one_row p c a ''Rainfall (mm)'' = Some [p]"
  "one_row p c a ''Curve Number'' = Some [c]"
  "one_row p c a ''Area (sq.km)'' = Some [a]"
  by (simp_all add: one_row_def)

lemmas eval_defs = calculate_def getitem_def scs_S_def scs_Q_def scs_volume_def
  strange_volume_def strange_Q_def series_defs one_row_def fsub_def signed_inf_def
  round2_def rint_def Let_def power2_eq_square

section \<open>The handler on typed columns\<close>

lemma as_float_Float64 [simp]: "as_float (Float64 s) = Inr s"
  by (simp add: as_float_def)

lemma as_float_Int64 [simp]: "as_float (Int64 ns) = Inr (map (\<lambda>n. Fin (of_int n)) ns)"
  by (simp add: as_float_def)

lemma as_float_Object [simp]: "as_float (Object ss) = Inl TypeError"
  by (simp add: as_float_def)

lemma column_mul_Float64 [simp]: "column_mul (Float64 s) (Float64 t) = Inr (series_mul s t)"
  by (simp add: column_mul_def)

lemma wrap64_fits: "fits64 n \<Longrightarrow> wrap64 n = n"
  by (simp add: wrap64_def fits64_def)

text \<open>A cell that is not a number makes its column text, and the handler fails on it.\<close>

lemma text_column_rejected:
  "calculate_frame
     [''Rainfall (mm)'' \<mapsto> Object [''abc''], ''Curve Number'' \<mapsto> Int64 [80],
      ''Area (sq.km)'' \<mapsto> Int64 [10]] method = Inl TypeError"
  by (simp add: calculate_frame_def getitem_def column_mul_def)

text \<open>On \<^verbatim>\<open>float64\<close> columns the handler is \<open>calculate\<close>.\<close>

lemma calculate_frame_float: "calculate_frame (float_frame data) method = calculate data method"
  by (simp add: calculate_frame_def calculate_def float_frame_def getitem_def Let_def
      strange_volume_def split: option.splits)

lemma calculate_frame_scs:
  assumes "data ''Rainfall (mm)'' = Some rainfall" "data ''Curve Number'' = Some CN"
    and "data ''Area (sq.km)'' = Some area"
    and "as_float rainfall = Inr P" "as_float CN = Inr C" "as_float area = Inr A"
  shows "calculate_frame data ''SCS CN Method'' =
    Inr \<lparr> Rainfall_mm = series_round2 P,
           Runoff_mm = series_round2 (scs_Q P (scs_S C)),
           Runoff_Volume_m3 = series_round2 (scs_volume (scs_Q P (scs_S C)) A) \<rparr>"
  using assms by (simp add: calculate_frame_def getitem_def Let_def)

lemma calculate_frame_strange:
  assumes "data ''Rainfall (mm)'' = Some rainfall" "data ''Curve Number'' = Some CN"
    and "data ''Area (sq.km)'' = Some area"
    and "as_float rainfall = Inr P" "as_float area = Inr A"
    and "column_mul rainfall area = Inr V" "method \<noteq> ''SCS CN Method''"
  shows "calculate_frame data method =
    Inr \<lparr> Rainfall_mm = series_round2 P,
           Runoff_mm = series_round2 (strange_Q (mul_scalar V 0.278) A),
           Runoff_Volume_m3 = series_round2 (mul_scalar V 0.278) \<rparr>"
  using assms by (simp add: calculate_frame_def getitem_def Let_def)

text \<open>
  Under the SCS CN method the handler on numeric columns is \<open>calculate\<close> on their
  values, whatever their types.
\<close>

lemma calculate_frame_scs_values:
  assumes "data ''Rainfall (mm)'' = Some rainfall" "data ''Curve Number'' = Some CN"
    and "data ''Area (sq.km)'' = Some area"
    and "as_float rainfall = Inr P" "as_float CN = Inr C" "as_float area = Inr A"
  shows "calculate_frame data ''SCS CN Method'' =
    calculate [''Rainfall (mm)'' \<mapsto> P, ''Curve Number'' \<mapsto> C, ''Area (sq.km)'' \<mapsto> A]
      ''SCS CN Method''"
  using assms by (simp add: calculate_frame_scs calculate_scs)

text \<open>Under the Strange method the curve numbers are not used, whatever their type.\<close>

lemma calculate_frame_strange_curve_number:
  assumes "d1 ''Rainfall (mm)'' = d2 ''Rainfall (mm)''"
    and "d1 ''Area (sq.km)'' = d2 ''Area (sq.km)''"
    and "d1 ''Curve Number'' = Some C1" "d2 ''Curve Number'' = Some C2"
    and "method \<noteq> ''SCS CN Method''"
  shows "calculate_frame d1 method = calculate_frame d2 method"
  using assms
  by (cases "d2 ''Rainfall (mm)''"; cases "d2 ''Area (sq.km)''")
     (simp_all add: calculate_frame_def getitem_def)

text \<open>The product of two numeric columns, row by row.\<close>

lemma column_mul_numeric:
  assumes "as_float rainfall = Inr P" "as_float area = Inr A" "length A = length P"
  shows "\<exists>V. column_mul rainfall area = Inr V \<and> length V = length P \<and>
    (\<forall>i < length P. no_wrap rainfall area i \<longrightarrow> V ! i = fmul (P ! i) (A ! i))"
proof (cases rainfall)
  case (Float64 s)
  with assms show ?thesis
    by (cases area) (auto simp: column_mul_def series_mul_def)
next
  case (Int64 xs)
  show ?thesis
  proof (cases area)
    case (Float64 t)
    with Int64 assms show ?thesis by (auto simp: column_mul_def series_mul_def)
  next
    case (Int64 ys)
    with \<open>rainfall = Int64 xs\<close> assms show ?thesis
      by (auto simp: column_mul_def wrap64_fits)
  next
    case (Object ss)
    with assms show ?thesis by simp
  qed
next
  case (Object ss)
  with assms show ?thesis by simp
qed

lemma frame_scs_row:
  assumes "data ''Rainfall (mm)'' = Some rainfall" "data ''Curve Number'' = Some CN"
    and "data ''Area (sq.km)'' = Some area"
    and "as_float rainfall = Inr P" "as_float CN = Inr C" "as_float area = Inr A"
    and "length C = length P" "length A = length P" "i < length P"
  shows "\<exists>r. calculate_frame data ''SCS CN Method'' = Inr r \<and>
    length (Rainfall_mm r) = length P \<and> length (Runoff_mm r) = length P \<and>
    length (Runoff_Volume_m3 r) = length P \<and>
    Rainfall_mm r ! i = fround2 (P ! i) \<and>
    Runoff_mm r ! i = fround2 (scs_Q P (scs_S C) ! i) \<and>
    Runoff_Volume_m3 r ! i = fround2 (fmul (fmul (scs_Q P (scs_S C) ! i) (A ! i)) (Fin 1000))"
  using assms
  by (simp add: calculate_frame_scs series_round2_nth length_scs_Q length_scs_volume
      scs_volume_nth series_round2_def)

lemma frame_strange_row:
  assumes "data ''Rainfall (mm)'' = Some rainfall" "data ''Curve Number'' = Some CN"
    and "data ''Area (sq.km)'' = Some area"
    and "as_float rainfall = Inr P" "as_float area = Inr A"
    and "length A = length P" "i < length P"
    and "method \<noteq> ''SCS CN Method''" "no_wrap rainfall area i"
  shows "\<exists>r. calculate_frame data method = Inr r \<and>
    length (Rainfall_mm r) = length P \<and> length (Runoff_mm r) = length P \<and>
    length (Runoff_Volume_m3 r) = length P \<and>
    Rainfall_mm r ! i = fround2 (P ! i) \<and>
    Runoff_mm r ! i = fround2 (fdiv (fmul (fmul (P ! i) (A ! i)) (Fin 0.278)) (A ! i)) \<and>
    Runoff_Volume_m3 r ! i = fround2 (fmul (fmul (P ! i) (A ! i)) (Fin 0.278))"
proof -
  from column_mul_numeric [OF assms(4,5,6)] obtain V where
    V: "column_mul rainfall area = Inr V" "length V = length P"
      "\<forall>i < length P. no_wrap rainfall area i \<longrightarrow> V ! i = fmul (P ! i) (A ! i)"
    by blast
  from V(3) assms(7,9) have Vi: "V ! i = fmul (P ! i) (A ! i)" by simp
  have "calculate_frame data method =
    Inr \<lparr> Rainfall_mm = series_round2 P,
           Runoff_mm = series_round2 (strange_Q (mul_scalar V 0.278) A),
           Runoff_Volume_m3 = series_round2 (mul_scalar V 0.278) \<rparr>"
    using assms(1-5) V(1) assms(8) by (rule calculate_frame_strange)
  with V(2) Vi assms(6,7) show ?thesis
    by (simp add: series_round2_def strange_Q_def series_truediv_def mul_scalar_def)
qed

lemmas frame_eval_defs = calculate_frame_def getitem_def column_mul_def wrap64_def
  scs_S_def scs_Q_def scs_volume_def strange_Q_def series_defs fsub_def signed_inf_def
  round2_def rint_def Let_def power2_eq_square

section \<open>Arithmetic of the SCS CN formula\<close>

text \<open>For a curve number in \<open>(0, 100]\<close> the retention \<open>S = 25400 / CN - 254\<close> is not negative.\<close>

lemma retention_nonneg:
  fixes c :: real
  assumes "0 < c" "c \<le> 100"
  shows "0 \<le> 25400 / c - 254"
proof -
  from assms have "254 * c \<le> 25400" by simp
  with assms have "254 \<le> 25400 / c" by (simp add: pos_le_divide_eq)
  then show ?thesis by simp
qed

text \<open>
  With \<open>u = P - 0.2 S\<close> and \<open>c = S\<close> the depth is \<open>u\<^sup>2 / (u + c)\<close>; it grows with \<open>u\<close>
  once \<open>u\<close> is not negative.
\<close>

lemma depth_mono:
  fixes c u v :: real
  assumes "0 \<le> u" "u \<le> v" "0 < u + c" "0 \<le> c"
  shows "u\<^sup>2 / (u + c) \<le> v\<^sup>2 / (v + c)"
proof -
  have vc: "0 < v + c" using assms by linarith
  have "v\<^sup>2 * (u + c) - u\<^sup>2 * (v + c) = (v - u) * (u * v + c * (u + v))"
    by (simp add: power2_eq_square algebra_simps)
  moreover have "0 \<le> (v - u) * (u * v + c * (u + v))"
    using assms by (intro mult_nonneg_nonneg add_nonneg_nonneg) auto
  ultimately have le: "u\<^sup>2 * (v + c) \<le> v\<^sup>2 * (u + c)" by linarith
  have "u\<^sup>2 / (u + c) = u\<^sup>2 * (v + c) / ((u + c) * (v + c))"
    using assms(3) vc by simp
  also have "\<dots> \<le> v\<^sup>2 * (u + c) / ((u + c) * (v + c))"
    using le assms(3) vc by (intro divide_right_mono) auto
  also have "\<dots> = v\<^sup>2 / (v + c)"
    using assms(3) vc by simp
  finally show ?thesis .
qed

text \<open>The same for the handler's formula, with \<open>S\<close> the retention.\<close>

lemma scs_depth_mono:
  fixes S p1 p2 :: real
  assumes "0 \<le> S" "0 < p1" "0.2 * S \<le> p1" "p1 \<le> p2"
  shows "(p1 - 0.2 * S)\<^sup>2 / (p1 + 0.8 * S) \<le> (p2 - 0.2 * S)\<^sup>2 / (p2 + 0.8 * S)"
proof -
  have u: "0 \<le> p1 - 0.2 * S" using assms by simp
  have uv: "p1 - 0.2 * S \<le> p2 - 0.2 * S" using assms by simp
  have uc: "0 < (p1 - 0.2 * S) + S" using assms by simp
  have e1: "(p1 - 0.2 * S) + S = p1 + 0.8 * S" by simp
  have e2: "(p2 - 0.2 * S) + S = p2 + 0.8 * S" by simp
  have "(p1 - 0.2 * S)\<^sup>2 / ((p1 - 0.2 * S) + S)
      \<le> (p2 - 0.2 * S)\<^sup>2 / ((p2 - 0.2 * S) + S)"
    using u uv uc \<open>0 \<le> S\<close> by (rule depth_mono)
  then show ?thesis unfolding e1 e2 .
qed

section \<open>Writing a result and reading it back\<close>

lemma of_char_digit: "d < 10 \<Longrightarrow> (of_char (digit_char d) :: nat) = 48 + d"
  by (simp add: digit_char_def)

lemma is_digit_digit_char [simp]: "d < 10 \<Longrightarrow> is_digit (digit_char d)"
  by (simp add: is_digit_def of_char_digit)

lemma digit_val_digit_char [simp]: "d < 10 \<Longrightarrow> digit_val (digit_char d) = d"
  by (simp add: digit_val_def of_char_digit)



lemma show_nat_nonempty [simp]: "show_nat n \<noteq> []"
  by (subst show_nat.simps) simp

lemma read_nat_append: "read_nat (s @ [c]) = 10 * read_nat s + digit_val c"
  by (simp add: read_nat_def)

lemma read_nat_show_nat [simp]: "read_nat (show_nat n) = n"
proof (induction n rule: show_nat.induct)
  case (1 n)
  show ?case
  proof (cases "n < 10")
    case True
    then show ?thesis by (subst show_nat.simps) (simp add: read_nat_def)
  next
    case False
    with 1 show ?thesis
      by (subst show_nat.simps) (simp add: read_nat_append)
  qed
qed

lemma rint_is_int: "rint x = of_int \<lfloor>rint x\<rfloor>"
  by (simp add: rint_def Let_def)

lemma round2_idem [simp]: "round2 (round2 x) = round2 x"
proof -
  have "rint (x * 100) = of_int \<lfloor>rint (x * 100)\<rfloor>" by (rule rint_is_int)
  then obtain k :: int where k: "rint (x * 100) = of_int k" ..
  then show ?thesis by (simp add: round2_def)
qed

lemma fround2_idem [simp]: "fround2 (fround2 x) = fround2 x"
  by (cases x) simp_all





















section \<open>The claims\<close>

subsection \<open>C1: rainfall below the initial abstraction\<close>

text \<open>
  C1 says that a row with \<open>P \<le> 0.2 * (25400 / CN - 254)\<close> gets the runoff depth 0. The
  handler has no clamp: the numerator is squared, so below the threshold the depth is
  positive again. What holds for a row with \<open>P > 0\<close> and \<open>0 < CN \<le> 100\<close>: the depth shown
  is the rounded value of \<open>(P - 0.2 S)\<^sup>2 / (P + 0.8 S)\<close>, and it is never negative.
\<close>

theorem scs_below_threshold_runoff:
  assumes "data ''Rainfall (mm)'' = Some P" "data ''Curve Number'' = Some C"
    and "data ''Area (sq.km)'' = Some A" "length C = length P" "length A = length P"
    and "i < length P" "P ! i = Fin p" "C ! i = Fin c"
    and "0 < p" "0 < c" "c \<le> 100" "p \<le> 0.2 * (25400 / c - 254)"
  shows "\<exists>r. calculate data ''SCS CN Method'' = Inr r \<and>
    Runoff_mm r ! i =
      Fin (round2 ((p - 0.2 * (25400 / c - 254))\<^sup>2 / (p + 0.8 * (25400 / c - 254)))) \<and>
    0 \<le> round2 ((p - 0.2 * (25400 / c - 254))\<^sup>2 / (p + 0.8 * (25400 / c - 254)))"
proof -
  have S: "0 \<le> 25400 / c - 254" using assms by (simp add: retention_nonneg)
  then have "0 \<le> 0.8 * (25400 / c - 254)" by (intro mult_nonneg_nonneg) auto
  with \<open>0 < p\<close> have den: "0 < p + 0.8 * (25400 / c - 254)" by (rule add_pos_nonneg)
  then have q: "scs_Q P (scs_S C) ! i =
      Fin ((p - 0.2 * (25400 / c - 254))\<^sup>2 / (p + 0.8 * (25400 / c - 254)))"
    using assms by (intro scs_Q_finite) auto
  have "0 \<le> (p - 0.2 * (25400 / c - 254))\<^sup>2 / (p + 0.8 * (25400 / c - 254))"
    using den by (intro divide_nonneg_pos) auto
  then have "0 \<le> round2 ((p - 0.2 * (25400 / c - 254))\<^sup>2 / (p + 0.8 * (25400 / c - 254)))"
    by (rule round2_nonneg)
  with q assms show ?thesis
    by (simp add: calculate_scs series_round2_nth length_scs_Q)
qed

theorem scs_below_threshold_runoff_witness:
  "(5::real) \<le> 0.2 * (25400 / 70 - 254) \<and>
   (\<exists>r. calculate (one_row (Fin 5) (Fin 70) (Fin 1)) ''SCS CN Method'' = Inr r \<and>
    Runoff_mm r ! 0 =
      Fin (round2 ((5 - 0.2 * (25400 / 70 - 254))\<^sup>2 / (5 + 0.8 * (25400 / 70 - 254)))) \<and>
    0 \<le> round2 ((5 - 0.2 * (25400 / 70 - 254))\<^sup>2 / (5 + 0.8 * (25400 / 70 - 254))))"
  using scs_below_threshold_runoff [of "one_row (Fin 5) (Fin 70) (Fin 1)" "[Fin 5]" "[Fin 70]"
      "[Fin 1]" 0 5 70]
  by (simp add: one_row_cols)

text \<open>
  The row \<open>P = 5\<close>, \<open>CN = 70\<close>, \<open>area = 1\<close> is below the threshold (\<open>0.2 S = 21.77\<close>) and
  its runoff depth is 3.05, not 0.
\<close>

theorem scs_no_clamp_counterexample:
  "(5::real) \<le> 0.2 * (25400 / 70 - 254) \<and>
   calculate (one_row (Fin 5) (Fin 70) (Fin 1)) ''SCS CN Method'' =
     Inr \<lparr> Rainfall_mm = [Fin 5], Runoff_mm = [Fin 3.05],
            Runoff_Volume_m3 = [Fin 3054.55] \<rparr> \<and>
   Fin 3.05 \<noteq> Fin 0"
  by (simp add: eval_defs)

subsection \<open>C2: a denominator that is not positive\<close>

text \<open>
  C2 says that the denominator \<open>P + 0.8 S\<close> is checked and that a row where it is not
  positive becomes a row error, left out of the result. The handler checks nothing. For
  a row with a finite rainfall and a finite curve number other than 0 whose denominator
  is not positive: the handler returns a result with as many rows as the input, row
  \<open>i\<close> of it is the input's row \<open>i\<close>, and when the denominator is negative its depth is
  the rounded value of \<open>(P - 0.2 S)\<^sup>2 / (P + 0.8 S)\<close>, which is not positive. All this in
  exact arithmetic; what the code shows for a denominator that is exactly 0 depends on
  the rounding of its float operations and is left open here.
\<close>

theorem scs_nonpositive_denominator_row_kept:
  assumes "data ''Rainfall (mm)'' = Some rainfall" "data ''Curve Number'' = Some CN"
    and "data ''Area (sq.km)'' = Some area"
    and "as_float rainfall = Inr P" "as_float CN = Inr C" "as_float area = Inr A"
    and "length C = length P" "length A = length P"
    and "i < length P" "P ! i = Fin p" "C ! i = Fin c" "c \<noteq> 0"
    and "p + 0.8 * (25400 / c - 254) \<le> 0"
  shows "\<exists>r. calculate_frame data ''SCS CN Method'' = Inr r \<and>
    length (Rainfall_mm r) = length P \<and> length (Runoff_mm r) = length P \<and>
    length (Runoff_Volume_m3 r) = length P \<and>
    Rainfall_mm r ! i = Fin (round2 p) \<and>
    (p + 0.8 * (25400 / c - 254) < 0 \<longrightarrow>
       Runoff_mm r ! i =
         Fin (round2 ((p - 0.2 * (25400 / c - 254))\<^sup>2 / (p + 0.8 * (25400 / c - 254)))) \<and>
       round2 ((p - 0.2 * (25400 / c - 254))\<^sup>2 / (p + 0.8 * (25400 / c - 254))) \<le> 0)"
proof -
  let ?S = "25400 / c - 254"
  from frame_scs_row [OF assms(1-9)] obtain r where
    r: "calculate_frame data ''SCS CN Method'' = Inr r"
      "length (Rainfall_mm r) = length P" "length (Runoff_mm r) = length P"
      "length (Runoff_Volume_m3 r) = length P"
      "Rainfall_mm r ! i = fround2 (P ! i)"
      "Runoff_mm r ! i = fround2 (scs_Q P (scs_S C) ! i)"
    by blast
  have "Runoff_mm r ! i = Fin (round2 ((p - 0.2 * ?S)\<^sup>2 / (p + 0.8 * ?S))) \<and>
      round2 ((p - 0.2 * ?S)\<^sup>2 / (p + 0.8 * ?S)) \<le> 0"
    if neg: "p + 0.8 * ?S < 0"
  proof -
    from neg have den: "p + 0.8 * ?S \<noteq> 0" by simp
    have q: "scs_Q P (scs_S C) ! i = Fin ((p - 0.2 * ?S)\<^sup>2 / (p + 0.8 * ?S))"
      using assms(7,9,10,11,12) den by (rule scs_Q_finite)
    have "(p - 0.2 * ?S)\<^sup>2 / (p + 0.8 * ?S) \<le> 0"
      using neg by (intro divide_nonneg_neg) auto
    then have "round2 ((p - 0.2 * ?S)\<^sup>2 / (p + 0.8 * ?S)) \<le> 0" by (rule round2_nonpos)
    with r(6) q show ?thesis by simp
  qed
  with r assms(10) show ?thesis by auto
qed

theorem scs_nonpositive_denominator_row_kept_witness:
  "(50::real) + 0.8 * (25400 / 200 - 254) < 0 \<and>
   (\<exists>r. calculate_frame
          [''Rainfall (mm)'' \<mapsto> Int64 [50], ''Curve Number'' \<mapsto> Int64 [200],
           ''Area (sq.km)'' \<mapsto> Int64 [10]] ''SCS CN Method'' = Inr r \<and>
     length (Runoff_mm r) = 1 \<and> Rainfall_mm r ! 0 = Fin 50 \<and>
     Runoff_mm r ! 0 = Fin (- 110.18))"
  using scs_nonpositive_denominator_row_kept [of
      "[''Rainfall (mm)'' \<mapsto> Int64 [50], ''Curve Number'' \<mapsto> Int64 [200],
        ''Area (sq.km)'' \<mapsto> Int64 [10]]"
      "Int64 [50]" "Int64 [200]" "Int64 [10]" "[Fin 50]" "[Fin 200]" "[Fin 10]" 0 50 200]
  by (auto simp: round2_def rint_def Let_def power2_eq_square)

text \<open>The row \<open>P = 50\<close>, \<open>CN = 200\<close>, \<open>area = 10\<close> has the denominator \<open>-51.6\<close>.\<close>

theorem scs_unguarded_denominator_counterexample:
  "(50::real) + 0.8 * (25400 / 200 - 254) \<le> 0 \<and>
   calculate (one_row (Fin 50) (Fin 200) (Fin 10)) ''SCS CN Method'' =
     Inr \<lparr> Rainfall_mm = [Fin 50], Runoff_mm = [Fin (- 110.18)],
            Runoff_Volume_m3 = [Fin (- 1101775.19)] \<rparr>"
  by (simp add: eval_defs)

subsection \<open>C3: a table without the Curve Number column\<close>

text \<open>
  C3 says that a table without the \<open>Curve Number\<close> column is rejected for the SCS CN
  method and accepted for the Strange method. The handler reads the column before it
  looks at the method, so the table is rejected for every method: the result is the
  \<open>KeyError\<close> of the first missing column.
\<close>

theorem missing_curve_number_rejected:
  assumes "data ''Curve Number'' = None"
  shows "calculate data method =
    Inl (KeyError (if data ''Rainfall (mm)'' = None then ''Rainfall (mm)''
                   else ''Curve Number''))"
  using assms by (simp add: calculate_def getitem_def split: option.splits)

theorem missing_curve_number_rejected_witness:
  "calculate [''Rainfall (mm)'' \<mapsto> [Fin 50], ''Area (sq.km)'' \<mapsto> [Fin 10]] ''SCS CN Method''
     = Inl (KeyError ''Curve Number'')"
  using missing_curve_number_rejected
    [of "[''Rainfall (mm)'' \<mapsto> [Fin 50], ''Area (sq.km)'' \<mapsto> [Fin 10]]" "''SCS CN Method''"]
  by simp

theorem strange_missing_curve_number_counterexample:
  "calculate [''Rainfall (mm)'' \<mapsto> [Fin 50], ''Area (sq.km)'' \<mapsto> [Fin 10]] ''Strange Method''
     = Inl (KeyError ''Curve Number'')"
  by (simp add: calculate_def getitem_def)

subsection \<open>C4: values out of range\<close>

text \<open>
  C4 says that a row with a rainfall or an area that is not positive, or a curve number
  outside \<open>(0, 100]\<close>, makes the whole table fail. The handler checks no value. For a
  table whose three columns are there and numeric, it returns a result table with one row
  for each input row, whatever the cells hold; no error is raised for a value out of
  range. (A column of text or a missing column is what makes the handler fail.)
\<close>

theorem out_of_range_rows_computed:
  assumes "data ''Rainfall (mm)'' = Some rainfall" "data ''Curve Number'' = Some CN"
    and "data ''Area (sq.km)'' = Some area"
    and "as_float rainfall = Inr P" "as_float CN = Inr C" "as_float area = Inr A"
    and "length C = length P" "length A = length P"
  shows "\<exists>r. calculate_frame data method = Inr r \<and>
    length (Rainfall_mm r) = length P \<and> length (Runoff_mm r) = length P \<and>
    length (Runoff_Volume_m3 r) = length P"
proof (cases "method = ''SCS CN Method''")
  case True
  with assms show ?thesis
    by (simp add: calculate_frame_scs length_scs_Q length_scs_volume series_round2_def)
next
  case False
  from column_mul_numeric [OF assms(4) assms(6) assms(8)] obtain V where
    V: "column_mul rainfall area = Inr V" "length V = length P" by blast
  have "calculate_frame data method =
    Inr \<lparr> Rainfall_mm = series_round2 P,
           Runoff_mm = series_round2 (strange_Q (mul_scalar V 0.278) A),
           Runoff_Volume_m3 = series_round2 (mul_scalar V 0.278) \<rparr>"
    using assms(1-4) assms(6) V(1) False by (rule calculate_frame_strange)
  with V(2) assms(8) show ?thesis
    by (simp add: series_round2_def strange_Q_def series_truediv_def mul_scalar_def)
qed

theorem out_of_range_rows_computed_witness:
  "\<exists>r. calculate_frame
         [''Rainfall (mm)'' \<mapsto> Int64 [0, - 3], ''Curve Number'' \<mapsto> Float64 [Fin 150.5, Fin 0],
          ''Area (sq.km)'' \<mapsto> Int64 [- 2, 0]] ''SCS CN Method'' = Inr r \<and>
       length (Rainfall_mm r) = 2 \<and> length (Runoff_mm r) = 2 \<and>
       length (Runoff_Volume_m3 r) = 2"
  using out_of_range_rows_computed [of
      "[''Rainfall (mm)'' \<mapsto> Int64 [0, - 3], ''Curve Number'' \<mapsto> Float64 [Fin 150.5, Fin 0],
        ''Area (sq.km)'' \<mapsto> Int64 [- 2, 0]]"
      "Int64 [0, - 3]" "Float64 [Fin 150.5, Fin 0]" "Int64 [- 2, 0]"
      "[Fin 0, Fin (- 3)]" "[Fin 150.5, Fin 0]" "[Fin (- 2), Fin 0]" "''SCS CN Method''"]
  by (auto simp: numeral_2_eq_2)

text \<open>A negative rainfall is computed like any other.\<close>

theorem no_range_validation_counterexample:
  "calculate (one_row (Fin (- 5)) (Fin 80) (Fin 10)) ''SCS CN Method'' =
     Inr \<lparr> Rainfall_mm = [Fin (- 5)], Runoff_mm = [Fin 6.84],
            Runoff_Volume_m3 = [Fin 68403.93] \<rparr>"
  by (simp add: eval_defs)

subsection \<open>C5: one result row for each input row, in the same order\<close>

text \<open>
  C5 says that there is one result row or row error for each input row, in the same
  order, and that result row \<open>i\<close> derives from input row \<open>i\<close> alone. For a table whose
  three columns are there and numeric, and either method, the handler returns a result
  whose three columns are as long as the input; it has no row errors, so their number
  is 0. Row \<open>i\<close> of the result is computed from the three cells of input row \<open>i\<close> by the
  formulas of the method, in exact arithmetic. One case is set apart: under the Strange
  method, two integer-typed columns are multiplied as integers, and a product beyond the
  \<^verbatim>\<open>int64\<close> range wraps around. Whether a column is integer-typed depends on its other
  rows, so there the result row does not derive from its input row alone.
\<close>

theorem result_rows_aligned:
  assumes "data ''Rainfall (mm)'' = Some rainfall" "data ''Curve Number'' = Some CN"
    and "data ''Area (sq.km)'' = Some area"
    and "as_float rainfall = Inr P" "as_float CN = Inr C" "as_float area = Inr A"
    and "length C = length P" "length A = length P" "i < length P"
    and "method \<noteq> ''SCS CN Method'' \<longrightarrow> no_wrap rainfall area i"
  shows "\<exists>r. calculate_frame data method = Inr r \<and>
    length (Rainfall_mm r) = length P \<and> length (Runoff_mm r) = length P \<and>
    length (Runoff_Volume_m3 r) = length P \<and>
    Rainfall_mm r ! i = fround2 (P ! i) \<and>
    Runoff_mm r ! i =
      fround2 (if method = ''SCS CN Method''
               then fdiv (fpow2 (fsub (P ! i)
                            (fmul (Fin 0.2) (fsub (fdiv (Fin 25400) (C ! i)) (Fin 254)))))
                         (fadd (P ! i)
                            (fmul (Fin 0.8) (fsub (fdiv (Fin 25400) (C ! i)) (Fin 254))))
               else fdiv (fmul (fmul (P ! i) (A ! i)) (Fin 0.278)) (A ! i)) \<and>
    Runoff_Volume_m3 r ! i =
      fround2 (if method = ''SCS CN Method''
               then fmul (fmul (fdiv (fpow2 (fsub (P ! i)
                            (fmul (Fin 0.2) (fsub (fdiv (Fin 25400) (C ! i)) (Fin 254)))))
                         (fadd (P ! i)
                            (fmul (Fin 0.8) (fsub (fdiv (Fin 25400) (C ! i)) (Fin 254)))))
                      (A ! i)) (Fin 1000)
               else fmul (fmul (P ! i) (A ! i)) (Fin 0.278))"
proof (cases "method = ''SCS CN Method''")
  case True
  with frame_scs_row [OF assms(1-9)] assms(7,9) show ?thesis
    by (simp add: scs_Q_nth)
next
  case False
  with assms(10) have "no_wrap rainfall area i" by simp
  with frame_strange_row [OF assms(1-4) assms(6) assms(8,9) False] False show ?thesis
    by simp
qed

theorem result_rows_aligned_witness:
  "\<exists>r. calculate_frame
         [''Rainfall (mm)'' \<mapsto> Int64 [5, 50], ''Curve Number'' \<mapsto> Int64 [70, 80],
          ''Area (sq.km)'' \<mapsto> Float64 [Fin 1.5, Fin 10]] ''Strange Method'' = Inr r \<and>
       length (Runoff_mm r) = 2 \<and>
       Rainfall_mm r ! 1 = Fin 50 \<and> Runoff_mm r ! 1 = Fin 13.9 \<and>
       Runoff_Volume_m3 r ! 1 = Fin 139"
  using result_rows_aligned [of
      "[''Rainfall (mm)'' \<mapsto> Int64 [5, 50], ''Curve Number'' \<mapsto> Int64 [70, 80],
        ''Area (sq.km)'' \<mapsto> Float64 [Fin 1.5, Fin 10]]"
      "Int64 [5, 50]" "Int64 [70, 80]" "Float64 [Fin 1.5, Fin 10]"
      "[Fin 5, Fin 50]" "[Fin 70, Fin 80]" "[Fin 1.5, Fin 10]" 1 "''Strange Method''"]
  by (auto simp: round2_def rint_def Let_def numeral_2_eq_2)

text \<open>
  The row \<open>5000000000, 80, 5000000000\<close> alone makes integer columns and shows the
  depth 364361029.5; with a second row holding \<open>1.5\<close> in the rainfall column, the
  same row shows 1390000000.
\<close>

theorem result_row_depends_on_column_type_counterexample:
  "calculate_frame
     [''Rainfall (mm)'' \<mapsto> Int64 [5000000000], ''Curve Number'' \<mapsto> Int64 [80],
      ''Area (sq.km)'' \<mapsto> Int64 [5000000000]] ''Strange Method'' =
     Inr \<lparr> Rainfall_mm = [Fin 5000000000], Runoff_mm = [Fin 364361029.5],
            Runoff_Volume_m3 = [Fin 1821805147508744650.75] \<rparr> \<and>
   calculate_frame
     [''Rainfall (mm)'' \<mapsto> Float64 [Fin 5000000000, Fin 1.5],
      ''Curve Number'' \<mapsto> Int64 [80, 80],
      ''Area (sq.km)'' \<mapsto> Int64 [5000000000, 1]] ''Strange Method'' =
     Inr \<lparr> Rainfall_mm = [Fin 5000000000, Fin 1.5],
            Runoff_mm = [Fin 1390000000, Fin 0.42],
            Runoff_Volume_m3 = [Fin 6950000000000000000, Fin 0.42] \<rparr> \<and>
   Fin 364361029.5 \<noteq> Fin 1390000000"
  by (simp add: frame_eval_defs)

subsection \<open>C6: the Strange method's depth\<close>

text \<open>
  C6 says that every row of the Strange method has exactly the depth
  \<open>round (P * 0.278, 2)\<close>, independent of the area. The depth shown is the rounded value
  of the quotient \<open>(P * A * 0.278) / A\<close>. For a finite rainfall and a finite area other
  than 0 this is \<open>round (P * 0.278, 2)\<close> when the arithmetic is exact and, for two
  integer-typed columns, the product \<open>P * A\<close> lies in the \<^verbatim>\<open>int64\<close> range. In the float
  arithmetic of the code the quotient need not cancel, so the value shown can differ
  from \<open>round (P * 0.278, 2)\<close> in its last digit, and depend on the area.
\<close>

theorem strange_runoff_identity:
  assumes "data ''Rainfall (mm)'' = Some rainfall" "data ''Curve Number'' = Some CN"
    and "data ''Area (sq.km)'' = Some area"
    and "as_float rainfall = Inr P" "as_float area = Inr A" "length A = length P"
    and "method \<noteq> ''SCS CN Method''"
    and "i < length P" "P ! i = Fin p" "A ! i = Fin a" "a \<noteq> 0"
    and "no_wrap rainfall area i"
  shows "\<exists>r. calculate_frame data method = Inr r \<and>
    Runoff_mm r ! i = fround2 (fdiv (fmul (fmul (Fin p) (Fin a)) (Fin 0.278)) (Fin a)) \<and>
    Runoff_mm r ! i = Fin (round2 (p * 0.278))"
  using frame_strange_row [OF assms(1-6) assms(8) assms(7) assms(12)] assms(9-11)
  by auto

theorem strange_runoff_identity_witness:
  "\<exists>r. calculate_frame
         [''Rainfall (mm)'' \<mapsto> Int64 [50], ''Curve Number'' \<mapsto> Object [''n/a''],
          ''Area (sq.km)'' \<mapsto> Int64 [10]] ''Strange Method'' = Inr r \<and>
       Runoff_mm r ! 0 = Fin (round2 (50 * 0.278))"
  using strange_runoff_identity [of
      "[''Rainfall (mm)'' \<mapsto> Int64 [50], ''Curve Number'' \<mapsto> Object [''n/a''],
        ''Area (sq.km)'' \<mapsto> Int64 [10]]"
      "Int64 [50]" "Object [''n/a'']" "Int64 [10]" "[Fin 50]" "[Fin 10]"
      "''Strange Method''" 0 50 10]
  by (simp add: fits64_def)

text \<open>
  Two integer columns with the row \<open>5000000000, 80, 5000000000\<close>: the product wraps
  around to 6553255926290448384 and the depth shown is 364361029.5, not 1390000000.
\<close>

theorem strange_int64_wrap_counterexample:
  "calculate_frame
     [''Rainfall (mm)'' \<mapsto> Int64 [5000000000], ''Curve Number'' \<mapsto> Int64 [80],
      ''Area (sq.km)'' \<mapsto> Int64 [5000000000]] ''Strange Method'' =
     Inr \<lparr> Rainfall_mm = [Fin 5000000000], Runoff_mm = [Fin 364361029.5],
            Runoff_Volume_m3 = [Fin 1821805147508744650.75] \<rparr> \<and>
   round2 (5000000000 * 0.278) = 1390000000 \<and>
   (364361029.5 :: real) \<noteq> 1390000000"
  by (simp add: frame_eval_defs)

subsection \<open>C7: monotonicity in the rainfall\<close>

text \<open>
  C7 says that, for a fixed curve number and area, more rainfall never gives less runoff
  depth. Below the threshold \<open>0.2 S\<close> the handler's depth falls as the rainfall grows,
  since nothing clamps it. From the threshold on it is monotone: for \<open>0 < CN \<le> 100\<close>
  and \<open>0.2 S \<le> P1 \<le> P2\<close> with \<open>P1 > 0\<close>, the depth shown for \<open>P1\<close> is at most the
  one shown for \<open>P2\<close>.
\<close>

theorem scs_monotone_above_threshold:
  assumes "d1 ''Rainfall (mm)'' = Some P1" "d1 ''Curve Number'' = Some C"
    and "d1 ''Area (sq.km)'' = Some A"
    and "d2 ''Rainfall (mm)'' = Some P2" "d2 ''Curve Number'' = Some C"
    and "d2 ''Area (sq.km)'' = Some A"
    and "length C = length P1" "length A = length P1" "length P2 = length P1"
    and "i < length P1" "P1 ! i = Fin p1" "P2 ! i = Fin p2" "C ! i = Fin c"
    and "0 < c" "c \<le> 100" "0 < p1" "0.2 * (25400 / c - 254) \<le> p1" "p1 \<le> p2"
  shows "\<exists>r1 r2 q1 q2. calculate d1 ''SCS CN Method'' = Inr r1 \<and>
    calculate d2 ''SCS CN Method'' = Inr r2 \<and>
    Runoff_mm r1 ! i = Fin q1 \<and> Runoff_mm r2 ! i = Fin q2 \<and> q1 \<le> q2"
proof -
  let ?S = "25400 / c - 254"
  have S: "0 \<le> ?S" using \<open>0 < c\<close> \<open>c \<le> 100\<close> by (rule retention_nonneg)
  then have S8: "0 \<le> 0.8 * ?S" by (intro mult_nonneg_nonneg) auto
  with \<open>0 < p1\<close> have den1: "0 < p1 + 0.8 * ?S" by (rule add_pos_nonneg)
  with \<open>p1 \<le> p2\<close> have den2: "0 < p2 + 0.8 * ?S" by linarith
  have q1: "scs_Q P1 (scs_S C) ! i = Fin ((p1 - 0.2 * ?S)\<^sup>2 / (p1 + 0.8 * ?S))"
    using assms den1 by (intro scs_Q_finite) auto
  have q2: "scs_Q P2 (scs_S C) ! i = Fin ((p2 - 0.2 * ?S)\<^sup>2 / (p2 + 0.8 * ?S))"
    using assms den2 by (intro scs_Q_finite) auto
  have "(p1 - 0.2 * ?S)\<^sup>2 / (p1 + 0.8 * ?S) \<le> (p2 - 0.2 * ?S)\<^sup>2 / (p2 + 0.8 * ?S)"
    using S \<open>0 < p1\<close> assms(17) \<open>p1 \<le> p2\<close> by (rule scs_depth_mono)
  then have "round2 ((p1 - 0.2 * ?S)\<^sup>2 / (p1 + 0.8 * ?S))
      \<le> round2 ((p2 - 0.2 * ?S)\<^sup>2 / (p2 + 0.8 * ?S))"
    by (rule round2_mono)
  with q1 q2 assms show ?thesis
    by (simp add: calculate_scs series_round2_nth length_scs_Q)
qed

theorem scs_monotone_above_threshold_witness:
  "(0.2::real) * (25400 / 70 - 254) \<le> 30 \<and>
   (\<exists>r1 r2 q1 q2. calculate (one_row (Fin 30) (Fin 70) (Fin 1)) ''SCS CN Method'' = Inr r1 \<and>
    calculate (one_row (Fin 50) (Fin 70) (Fin 1)) ''SCS CN Method'' = Inr r2 \<and>
    Runoff_mm r1 ! 0 = Fin q1 \<and> Runoff_mm r2 ! 0 = Fin q2 \<and> q1 \<le> q2)"
  using scs_monotone_above_threshold [of "one_row (Fin 30) (Fin 70) (Fin 1)" "[Fin 30]"
      "[Fin 70]" "[Fin 1]" "one_row (Fin 50) (Fin 70) (Fin 1)" "[Fin 50]" 0 30 50 70]
  by (simp add: one_row_cols)

text \<open>With \<open>CN = 70\<close> the rainfall 5 gives the depth 3.05 and the rainfall 10 gives 1.43.\<close>

theorem scs_not_monotone_counterexample:
  "calculate (one_row (Fin 5) (Fin 70) (Fin 1)) ''SCS CN Method'' =
     Inr \<lparr> Rainfall_mm = [Fin 5], Runoff_mm = [Fin 3.05],
            Runoff_Volume_m3 = [Fin 3054.55] \<rparr> \<and>
   calculate (one_row (Fin 10) (Fin 70) (Fin 1)) ''SCS CN Method'' =
     Inr \<lparr> Rainfall_mm = [Fin 10], Runoff_mm = [Fin 1.43],
            Runoff_Volume_m3 = [Fin 1427.26] \<rparr> \<and>
   (5::real) \<le> 10 \<and> \<not> (3.05::real) \<le> 1.43"
  by (simp add: eval_defs)

subsection \<open>C8: the row 50, 80, 10\<close>

text \<open>
  C8 gives, for the row \<open>P = 50\<close>, \<open>CN = 80\<close>, \<open>area = 10\<close> under the SCS CN method,
  \<open>S = 63.5\<close>, the depth 13.82 and the volume 138200. The retention is right; the depth
  is \<open>37.3\<^sup>2 / 100.8 = 13.8025\<close>, shown as 13.8, and the volume, computed from the
  unrounded depth, is 138024.8.
\<close>

theorem scs_example_50_80_10:
  "scs_S [Fin 80] = [Fin 63.5] \<and>
   calculate (one_row (Fin 50) (Fin 80) (Fin 10)) ''SCS CN Method'' =
     Inr \<lparr> Rainfall_mm = [Fin 50], Runoff_mm = [Fin 13.80],
            Runoff_Volume_m3 = [Fin 138024.80] \<rparr>"
  by (simp add: eval_defs)

theorem scs_example_50_80_10_counterexample:
  "calculate (one_row (Fin 50) (Fin 80) (Fin 10)) ''SCS CN Method'' \<noteq>
     Inr \<lparr> Rainfall_mm = [Fin 50], Runoff_mm = [Fin 13.82],
            Runoff_Volume_m3 = [Fin 138200.00] \<rparr>"
  by (simp add: eval_defs)

subsection \<open>C9: rounding comes last, and the written result reads back\<close>



subsection \<open>C10: the Strange method does not read the curve numbers\<close>

text \<open>
  C10: two tables with the same \<open>Rainfall (mm)\<close> and \<open>Area (sq.km)\<close> columns, each with
  a \<open>Curve Number\<close> column of any content, give the same outcome under the Strange
  method.
\<close>

theorem strange_ignores_curve_number:
  assumes "d1 ''Rainfall (mm)'' = d2 ''Rainfall (mm)''"
    and "d1 ''Area (sq.km)'' = d2 ''Area (sq.km)''"
    and "d1 ''Curve Number'' = Some C1" "d2 ''Curve Number'' = Some C2"
    and "method \<noteq> ''SCS CN Method''"
  shows "calculate d1 method = calculate d2 method"
  using assms
  by (cases "d2 ''Rainfall (mm)''"; cases "d2 ''Area (sq.km)''")
     (simp_all add: calculate_def getitem_def)

theorem strange_ignores_curve_number_witness:
  "calculate (one_row (Fin 50) (Fin 80) (Fin 10)) ''Strange Method'' =
   calculate (one_row (Fin 50) (Fin 35) (Fin 10)) ''Strange Method''"
  using strange_ignores_curve_number [of "one_row (Fin 50) (Fin 80) (Fin 10)"
      "one_row (Fin 50) (Fin 35) (Fin 10)" "[Fin 80]" "[Fin 35]" "''Strange Method''"]
  by (simp add: one_row_cols)

end
